theory Spec2Isabelle
  imports Main
begin

section \<open>JavaScript values and strings\<close>

text \<open>
  The program is a Node.js script (src/index.js). Its values are modelled by the datatype
  \<open>jv\<close>: the JSON values a decoded response body holds, together with \<open>undefined\<close> and
  \<open>NaN\<close>. Numbers are the integer-valued ones (counts, limits, HTTP statuses); a string is
  a \<open>char list\<close>, every \<open>char\<close> one unit of the string (the models agree with JavaScript's
  \<open>length\<close> on ASCII text). An object is the list of its own properties in insertion order.
\<close>

datatype jv =
    JUndef
  | JNull
  | JBool bool
  | JNum int
  | JNaN
  | JStr string
  | JArr "jv list"
  | JObj "(string \<times> jv) list"

text \<open>An \<open>Error\<close> object: its message and the three properties \<open>request\<close> attaches.\<close>

record js_error =
  message :: string
  status :: jv
  code :: jv
  data :: jv

definition newError :: "string \<Rightarrow> js_error" where
  "newError m = \<lparr>message = m, status = JUndef, code = JUndef, data = JUndef\<rparr>"

text \<open>JavaScript truthiness, as \<open>if (v)\<close>, \<open>v || d\<close> and \<open>!v\<close> read it.\<close>

fun truthy :: "jv \<Rightarrow> bool" where
  "truthy JUndef = False"
| "truthy JNull = False"
| "truthy (JBool b) = b"
| "truthy (JNum n) = (n \<noteq> 0)"
| "truthy JNaN = False"
| "truthy (JStr s) = (s \<noteq> [])"
| "truthy (JArr xs) = True"
| "truthy (JObj ps) = True"

definition js_or :: "jv \<Rightarrow> jv \<Rightarrow> jv" where
  "js_or a b = (if truthy a then a else b)"

text \<open>Decimal digits of a natural number, and \<open>String(v)\<close> as a template literal applies it.\<close>

definition digit_char :: "nat \<Rightarrow> char" where
  "digit_char d = ''0123456789'' ! d"

fun digits :: "nat \<Rightarrow> string" where
  "digits n = (if n < 10 then [digit_char n] else digits (n div 10) @ [digit_char (n mod 10)])"

declare digits.simps [simp del]

definition show_int :: "int \<Rightarrow> string" where
  "show_int i = (if i < 0 then CHR ''-'' # digits (nat (- i)) else digits (nat i))"

fun join :: "string \<Rightarrow> string list \<Rightarrow> string" where
  "join sep [] = []"
| "join sep [x] = x"
| "join sep (x # y # ys) = x @ sep @ join sep (y # ys)"

fun toStr :: "jv \<Rightarrow> string" where
  "toStr JUndef = ''undefined''"
| "toStr JNull = ''null''"
| "toStr (JBool b) = (if b then ''true'' else ''false'')"
| "toStr (JNum n) = show_int n"
| "toStr JNaN = ''NaN''"
| "toStr (JStr s) = s"
| "toStr (JArr xs) =
     join '','' (map (\<lambda>x. if x = JUndef \<or> x = JNull then [] else toStr x) xs)"
| "toStr (JObj ps) = ''[object Object]''"

text \<open>
  Property access. \<open>lookup\<close> reads an own property of an object; \<open>field v k\<close> is \<open>v.k\<close> for a
  value that is neither \<open>null\<close> nor \<open>undefined\<close> (the program reads only fixed names, none of
  them inherited, and \<open>length\<close>); \<open>opt v k\<close> is the optional chain \<open>v?.k\<close>.
\<close>

fun lookup :: "(string \<times> jv) list \<Rightarrow> string \<Rightarrow> jv" where
  "lookup [] k = JUndef"
| "lookup ((k', v) # ps) k = (if k' = k then v else lookup ps k)"

fun field :: "jv \<Rightarrow> string \<Rightarrow> jv" where
  "field (JObj ps) k = lookup ps k"
| "field (JArr xs) k = (if k = ''length'' then JNum (int (length xs)) else JUndef)"
| "field (JStr s) k = (if k = ''length'' then JNum (int (length s)) else JUndef)"
| "field v k = JUndef"

definition nullish :: "jv \<Rightarrow> bool" where
  "nullish v = (v = JUndef \<or> v = JNull)"

definition opt :: "jv \<Rightarrow> string \<Rightarrow> jv" where
  "opt v k = (if nullish v then JUndef else field v k)"

definition cannotRead :: "jv \<Rightarrow> string \<Rightarrow> js_error" where
  "cannotRead v k =
     newError (''Cannot read properties of '' @ toStr v @ '' (reading '' @ [CHR 0x27] @ k @ [CHR 0x27] @ '')'')"

text \<open>\<open>v.k\<close> with the \<open>TypeError\<close> JavaScript raises on \<open>null\<close> and \<open>undefined\<close>.\<close>

definition getProp :: "jv \<Rightarrow> string \<Rightarrow> js_error + jv" where
  "getProp v k = (if nullish v then Inl (cannotRead v k) else Inr (field v k))"

text \<open>Assignment \<open>obj[k] = v\<close> of a primitive: the key \<open>__proto__\<close> is silently ignored.\<close>

primrec update :: "string \<Rightarrow> jv \<Rightarrow> (string \<times> jv) list \<Rightarrow> (string \<times> jv) list" where
  "update k v [] = [(k, v)]"
| "update k v (p # ps) = (if fst p = k then (k, v) # ps else p # update k v ps)"

definition setProp :: "string \<Rightarrow> jv \<Rightarrow> (string \<times> jv) list \<Rightarrow> (string \<times> jv) list" where
  "setProp k v ps = (if k = ''__proto__'' then ps else update k v ps)"

text \<open>String helpers: \<open>startsWith\<close>, \<open>includes\<close>, \<open>padEnd\<close>, \<open>split('=')\<close>.\<close>

definition startsWith :: "string \<Rightarrow> string \<Rightarrow> bool" where
  "startsWith s p = (take (length p) s = p)"

fun strIncludes :: "string \<Rightarrow> string \<Rightarrow> bool" where
  "strIncludes [] p = (p = [])"
| "strIncludes (c # cs) p = (startsWith (c # cs) p \<or> strIncludes cs p)"

definition padEnd :: "string \<Rightarrow> nat \<Rightarrow> string" where
  "padEnd s n = s @ replicate (n - length s) CHR '' ''"

fun splitOn :: "char \<Rightarrow> string \<Rightarrow> string list" where
  "splitOn d [] = [[]]"
| "splitOn d (c # cs) =
     (if c = d then [] # splitOn d cs
      else (case splitOn d cs of p # ps \<Rightarrow> (c # p) # ps | [] \<Rightarrow> [[c]]))"

text \<open>\<open>s.split(d, n)\<close>: every piece is cut out first, then the array is truncated to \<open>n\<close>.\<close>

definition split_limit :: "char \<Rightarrow> nat \<Rightarrow> string \<Rightarrow> string list" where
  "split_limit d n s = take n (splitOn d s)"

section \<open>The argument parser (parseArgs, src/index.js lines 28-67)\<close>

record parsedArgs =
  command :: "string option"
  positional :: "string list"
  options :: "(string \<times> jv) list"

definition noStartsWith :: js_error where
  "noStartsWith = cannotRead JUndef ''startsWith''"

text \<open>\<open>args[i].startsWith(p)\<close>: an index past the end reads \<open>undefined\<close> and raises.\<close>

definition argStartsWith :: "string list \<Rightarrow> nat \<Rightarrow> string \<Rightarrow> js_error + bool" where
  "argStartsWith args i p =
     (if i < length args then Inr (startsWith (args ! i) p) else Inl noStartsWith)"

text \<open>\<open>i + 1 < args.length && !args[i + 1].startsWith('-')\<close>, short-circuit included.\<close>

definition nextIsValue :: "string list \<Rightarrow> nat \<Rightarrow> js_error + bool" where
  "nextIsValue args i =
     (if i + 1 < length args
      then (case argStartsWith args (i + 1) ''-'' of Inl e \<Rightarrow> Inl e | Inr b \<Rightarrow> Inr (\<not> b))
      else Inr False)"

definition setOption :: "string \<Rightarrow> jv \<Rightarrow> parsedArgs \<Rightarrow> parsedArgs" where
  "setOption k v p = p\<lparr>options := setProp k v (options p)\<rparr>"

definition addWord :: "string \<Rightarrow> parsedArgs \<Rightarrow> parsedArgs" where
  "addWord a p =
     (if command p = None then p\<lparr>command := Some a\<rparr>
      else p\<lparr>positional := positional p @ [a]\<rparr>)"

text \<open>
  \<open>const [key, value] = arg.slice(2).split('=', 2)\<close>: the first two pieces, each
  \<open>undefined\<close> when it is missing (an \<open>undefined\<close> key names the property \<open>undefined\<close>).
\<close>

definition longKey :: "string \<Rightarrow> string" where
  "longKey arg =
     (case split_limit CHR ''='' 2 (drop 2 arg) of [] \<Rightarrow> ''undefined'' | key # _ \<Rightarrow> key)"

definition longValue :: "string \<Rightarrow> string option" where
  "longValue arg =
     (case split_limit CHR ''='' 2 (drop 2 arg) of _ # val # _ \<Rightarrow> Some val | _ \<Rightarrow> None)"

function parseLoop :: "string list \<Rightarrow> nat \<Rightarrow> parsedArgs \<Rightarrow> js_error + parsedArgs" where
  "parseLoop args i p =
     (if i < length args then
        (case argStartsWith args i ''-'' of
           Inl e \<Rightarrow> Inl e
         | Inr False \<Rightarrow> parseLoop args (i + 1) (addWord (args ! i) p)
         | Inr True \<Rightarrow>
             (case argStartsWith args i ''--'' of
                Inl e \<Rightarrow> Inl e
              | Inr True \<Rightarrow>
                  (case longValue (args ! i) of
                     Some val \<Rightarrow>
                       parseLoop args (i + 1) (setOption (longKey (args ! i)) (JStr val) p)
                   | None \<Rightarrow>
                       (case nextIsValue args i of
                          Inl e \<Rightarrow> Inl e
                        | Inr True \<Rightarrow>
                            parseLoop args (i + 2)
                              (setOption (longKey (args ! i)) (JStr (args ! (i + 1))) p)
                        | Inr False \<Rightarrow>
                            parseLoop args (i + 1)
                              (setOption (longKey (args ! i)) (JBool True) p)))
              | Inr False \<Rightarrow>
                  (case nextIsValue args i of
                     Inl e \<Rightarrow> Inl e
                   | Inr True \<Rightarrow>
                       parseLoop args (i + 2)
                         (setOption (drop 1 (args ! i)) (JStr (args ! (i + 1))) p)
                   | Inr False \<Rightarrow>
                       parseLoop args (i + 1) (setOption (drop 1 (args ! i)) (JBool True) p))))
      else Inr p)"
  by pat_completeness auto
termination
  by (relation "measure (\<lambda>(args, i, p). length args - i)") auto

declare parseLoop.simps [simp del]

definition emptyParsed :: parsedArgs where
  "emptyParsed = \<lparr>command = None, positional = [], options = []\<rparr>"

definition parseArgs :: "string list \<Rightarrow> js_error + parsedArgs" where
  "parseArgs args = parseLoop args 0 emptyParsed"

section \<open>The query string builder (buildQueryString, lines 70-78)\<close>

definition unreserved :: "char \<Rightarrow> bool" where
  "unreserved c =
     (let n = (of_char c :: nat)
      in (65 \<le> n \<and> n \<le> 90) \<or> (97 \<le> n \<and> n \<le> 122) \<or> (48 \<le> n \<and> n \<le> 57)
         \<or> c \<in> set ''-_.!~*()'' \<or> c = CHR 0x27)"

definition hexDigit :: "nat \<Rightarrow> char" where
  "hexDigit d = ''0123456789ABCDEF'' ! d"

definition encodeChar :: "char \<Rightarrow> string" where
  "encodeChar c =
     (if unreserved c then [c]
      else [CHR ''%'', hexDigit ((of_char c :: nat) div 16), hexDigit ((of_char c :: nat) mod 16)])"

text \<open>
  \<open>encodeURIComponent\<close> on the UTF-8 bytes of a string: the unreserved characters stay,
  every other byte becomes \<open>%XX\<close>.
\<close>

definition encodeURIComponent :: "string \<Rightarrow> string" where
  "encodeURIComponent s = concat (map encodeChar s)"

definition queryPart :: "string \<Rightarrow> jv \<Rightarrow> string" where
  "queryPart k v = encodeURIComponent k @ ''='' @ encodeURIComponent (toStr v)"

text \<open>
  The loop over \<open>Object.entries(params)\<close>, pushing onto \<open>parts\<close>; the entries come in the
  object's insertion order (its keys here are never integer-like).
\<close>

fun collectParts :: "(string \<times> jv) list \<Rightarrow> string list \<Rightarrow> string list" where
  "collectParts [] parts = parts"
| "collectParts ((k, v) # ps) parts =
     collectParts ps (if v \<noteq> JNull \<and> v \<noteq> JUndef then parts @ [queryPart k v] else parts)"

definition buildQueryString :: "(string \<times> jv) list \<Rightarrow> string" where
  "buildQueryString params = join ''&'' (collectParts params [])"


section \<open>Effects: output, network calls, exceptions and process exit\<close>

text \<open>
  A run leaves a trace: the text of every \<open>console.log\<close> (\<open>Out\<close>) and \<open>console.error\<close>
  (\<open>Err\<close>) call, the URL of every \<open>authenticatedFetch\<close> call, and every construction of
  the service client. A computation ends with a value, with a thrown error, or with
  \<open>process.exit(n)\<close>, which ends the process where it stands and is not caught by
  \<open>try\<close>/\<open>catch\<close>.
\<close>

datatype effect = Out string | Err string | Fetch string | Construct

datatype 'a res = Val 'a | Thrown js_error | Exited nat

type_synonym 'a comp = "effect list \<times> 'a res"

definition ret :: "'a \<Rightarrow> 'a comp" where
  "ret x = ([], Val x)"

definition throw :: "js_error \<Rightarrow> 'a comp" where
  "throw e = ([], Thrown e)"

definition processExit :: "nat \<Rightarrow> 'a comp" where
  "processExit n = ([], Exited n)"

definition emit :: "effect \<Rightarrow> unit comp" where
  "emit ef = ([ef], Val ())"

definition emitAll :: "effect list \<Rightarrow> unit comp" where
  "emitAll efs = (efs, Val ())"

definition bind :: "'a comp \<Rightarrow> ('a \<Rightarrow> 'b comp) \<Rightarrow> 'b comp" where
  "bind m f =
     (case m of
        (tr, Val x) \<Rightarrow> (case f x of (tr', r) \<Rightarrow> (tr @ tr', r))
      | (tr, Thrown e) \<Rightarrow> (tr, Thrown e)
      | (tr, Exited n) \<Rightarrow> (tr, Exited n))"

definition andThen :: "unit comp \<Rightarrow> 'b comp \<Rightarrow> 'b comp" where
  "andThen m k = bind m (\<lambda>_. k)"

definition tryCatch :: "'a comp \<Rightarrow> (js_error \<Rightarrow> 'a comp) \<Rightarrow> 'a comp" where
  "tryCatch m h =
     (case m of
        (tr, Thrown e) \<Rightarrow> (case h e of (tr', r) \<Rightarrow> (tr @ tr', r))
      | (tr, Val x) \<Rightarrow> (tr, Val x)
      | (tr, Exited n) \<Rightarrow> (tr, Exited n))"

definition liftE :: "js_error + 'a \<Rightarrow> 'a comp" where
  "liftE r = (case r of Inl e \<Rightarrow> throw e | Inr x \<Rightarrow> ret x)"

section \<open>The host: credentials, transport, clock and locale\<close>

text \<open>
  What the program takes from its environment. \<open>rJson\<close> is the result of
  \<open>response.json()\<close>; \<open>isoString\<close> is \<open>toISOString\<close> on a valid time value, \<open>dateParse\<close>
  the time value of \<open>new Date(v)\<close> (\<open>None\<close> for an invalid date); \<open>localeTime\<close>,
  \<open>localeDate\<close> and \<open>localeString\<close> are \<open>new Date(v)\<close> rendered by \<open>toLocaleTimeString\<close>,
  \<open>toLocaleDateString\<close> (with the options of lines 84-88 and 95-100) and
  \<open>toLocaleString\<close>; \<open>stringify\<close> is \<open>JSON.stringify(v, null, 2)\<close>.
\<close>

record response =
  rOk :: bool
  rStatus :: int
  rStatusText :: string
  rJson :: "js_error + jv"

record world =
  tokenSystem :: bool
  hasToken :: "string \<Rightarrow> bool"
  authenticatedFetch :: "string \<Rightarrow> js_error + response"
  nowMs :: int
  startOfDay :: "int \<Rightarrow> int"
  startOfNextDay :: "int \<Rightarrow> int"
  isoString :: "int \<Rightarrow> string"
  dateParse :: "jv \<Rightarrow> int option"
  localeTime :: "jv \<Rightarrow> string"
  localeDate :: "jv \<Rightarrow> string"
  localeString :: "jv \<Rightarrow> string"
  stringify :: "jv \<Rightarrow> string"
  debugEnv :: bool
  stackOf :: "js_error \<Rightarrow> string"

definition invalidTime :: js_error where
  "invalidTime = newError ''Invalid time value''"

text \<open>\<open>toISOString\<close> on a time value: a \<open>RangeError\<close> on \<open>NaN\<close> and beyond 8.64e15 ms.\<close>

definition toISOString :: "world \<Rightarrow> int option \<Rightarrow> js_error + string" where
  "toISOString w t =
     (case t of
        None \<Rightarrow> Inl invalidTime
      | Some ms \<Rightarrow>
          if \<bar>ms\<bar> \<le> 8640000000000000 then Inr (isoString w ms) else Inl invalidTime)"

section \<open>Numbers from strings\<close>

definition isSpace :: "char \<Rightarrow> bool" where
  "isSpace c = (c \<in> set [CHR '' '', CHR 0x09, CHR 0x0A, CHR 0x0B, CHR 0x0C, CHR 0x0D])"

definition digitVal :: "char \<Rightarrow> nat" where
  "digitVal c =
     (let n = (of_char c :: nat)
      in if 48 \<le> n \<and> n \<le> 57 then n - 48
         else if 97 \<le> n \<and> n \<le> 122 then n - 87
         else if 65 \<le> n \<and> n \<le> 90 then n - 55
         else 36)"

definition leadingDigits :: "nat \<Rightarrow> string \<Rightarrow> nat list" where
  "leadingDigits r s = map digitVal (takeWhile (\<lambda>c. digitVal c < r) s)"

definition fromDigits :: "nat \<Rightarrow> nat list \<Rightarrow> nat" where
  "fromDigits r ds = foldl (\<lambda>a d. a * r + d) 0 ds"

text \<open>
  \<open>parseInt(v)\<close> with no radix: \<open>String(v)\<close>, leading white space skipped, a sign, a
  \<open>0x\<close> prefix for radix 16, then the longest run of digits; \<open>NaN\<close> when there is none.
\<close>

definition parseInt :: "jv \<Rightarrow> jv" where
  "parseInt v =
     (let s = dropWhile isSpace (toStr v);
          neg = startsWith s ''-'';
          s1 = (if startsWith s ''-'' \<or> startsWith s ''+'' then drop 1 s else s);
          hex = (startsWith s1 ''0x'' \<or> startsWith s1 ''0X'');
          r = (if hex then 16 else 10);
          ds = leadingDigits r (if hex then drop 2 s1 else s1)
      in if ds = [] then JNaN
         else JNum ((if neg then - 1 else 1) * int (fromDigits r ds)))"

text \<open>
  \<open>Number(v)\<close> as the comparisons \<open>v > n\<close> and the subtraction \<open>v - n\<close> apply it
  (\<open>None\<close> is \<open>NaN\<close>); a string counts when it is a decimal integer, white space around it
  allowed, and the empty string is 0.
\<close>

definition strToNumber :: "string \<Rightarrow> int option" where
  "strToNumber s0 =
     (let s = rev (dropWhile isSpace (rev (dropWhile isSpace s0)));
          neg = startsWith s ''-'';
          s1 = (if startsWith s ''-'' \<or> startsWith s ''+'' then drop 1 s else s)
      in if s = [] then Some 0
         else if s1 \<noteq> [] \<and> list_all (\<lambda>c. digitVal c < 10) s1
         then Some ((if neg then - 1 else 1) * int (fromDigits 10 (map digitVal s1)))
         else None)"

fun toNumber :: "jv \<Rightarrow> int option" where
  "toNumber JUndef = None"
| "toNumber JNull = Some 0"
| "toNumber (JBool b) = Some (if b then 1 else 0)"
| "toNumber (JNum n) = Some n"
| "toNumber JNaN = None"
| "toNumber (JStr s) = strToNumber s"
| "toNumber (JArr xs) = strToNumber (toStr (JArr xs))"
| "toNumber (JObj ps) = None"

definition greaterThan :: "jv \<Rightarrow> int \<Rightarrow> bool" where
  "greaterThan v n = (case toNumber v of None \<Rightarrow> False | Some m \<Rightarrow> n < m)"

definition minus :: "jv \<Rightarrow> int \<Rightarrow> jv" where
  "minus v n = (case toNumber v of None \<Rightarrow> JNaN | Some m \<Rightarrow> JNum (m - n))"

section \<open>Message text\<close>

text \<open>The emoji of the program's messages (their UTF-8 bytes) and the two quote characters.\<close>

definition markPin :: string where "markPin = [CHR 0xF0, CHR 0x9F, CHR 0x93, CHR 0x8D]"
definition markPeople :: string where "markPeople = [CHR 0xF0, CHR 0x9F, CHR 0x91, CHR 0xA5]"
definition markWarn :: string where
  "markWarn = [CHR 0xE2, CHR 0x9A, CHR 0xA0, CHR 0xEF, CHR 0xB8, CHR 0x8F]"
definition markCalendar :: string where "markCalendar = [CHR 0xF0, CHR 0x9F, CHR 0x93, CHR 0x85]"
definition markCheck :: string where "markCheck = [CHR 0xE2, CHR 0x9C, CHR 0x85]"
definition markLock :: string where "markLock = [CHR 0xF0, CHR 0x9F, CHR 0x94, CHR 0x90]"
definition markMail :: string where "markMail = [CHR 0xF0, CHR 0x9F, CHR 0x93, CHR 0xA7]"
definition markCross :: string where "markCross = [CHR 0xE2, CHR 0x9D, CHR 0x8C]"
definition markBulb :: string where "markBulb = [CHR 0xF0, CHR 0x9F, CHR 0x92, CHR 0xA1]"
definition markClock :: string where "markClock = [CHR 0xE2, CHR 0x8F, CHR 0xB0]"
definition markSearch :: string where "markSearch = [CHR 0xF0, CHR 0x9F, CHR 0x94, CHR 0x8D]"
definition dquote :: string where "dquote = [CHR 0x22]"
definition squote :: string where "squote = [CHR 0x27]"
definition newline :: string where "newline = [CHR 0x0A]"

text \<open>The usage text of \<open>printHelp\<close> (lines 347-387), line by line.\<close>

definition helpLines :: "string list" where
  "helpLines =
     [[],
      markCalendar @ '' Google Calendar CLI - Secure Token Version'',
      [],
      ''USAGE:'',
      ''  node gcal.js <command> [options]'',
      [],
      ''COMMANDS:'',
      ''  auth                     Show authentication status'',
      ''  calendars               List all calendars'',
      ''  today                   Show today'' @ squote @ ''s events'',
      ''  upcoming [days]         Show upcoming events (default: 7 days)'',
      ''  list [calendar]         List events from specific calendar'',
      ''  search <query>          Search events'',
      ''  event <eventId>         Get specific event details'',
      [],
      ''OPTIONS:'',
      ''  -c, --calendar <id>     Calendar ID (default: primary)'',
      ''  -n, --max <count>       Maximum results (default: varies by command)'',
      ''  -q, --query <query>     Search query'',
      ''  -f, --from <date>       Start date (YYYY-MM-DD)'',
      ''  -t, --to <date>         End date (YYYY-MM-DD)'',
      ''  -d, --days <number>     Number of days for upcoming events'',
      ''  --summary               Show brief summary only'',
      ''  --full                  Show full event details'',
      ''  --json                  Output raw JSON'',
      [],
      ''EXAMPLES:'',
      ''  node gcal.js today --summary'',
      ''  node gcal.js upcoming 14 --calendar primary'',
      ''  node gcal.js search '' @ dquote @ ''meeting'' @ dquote @ '' --from 2026-01-01 --to 2026-01-31'',
      ''  node gcal.js calendars --json'',
      ''  node gcal.js list primary --max 20'',
      [],
      ''TOKEN SETUP:'',
      ''  Tokens are configured in ~/.pave/permissions.yaml'',
      ''  Environment variables needed:'',
      ''    GOOGLE_CALENDAR_CLIENT_ID       - OAuth client ID'',
      ''    GOOGLE_CALENDAR_CLIENT_SECRET   - OAuth client secret  '',
      ''    GOOGLE_CALENDAR_REFRESH_TOKEN   - OAuth refresh token'',
      ''    GOOGLE_CALENDAR_ACCESS_TOKEN    - (optional) Current access token'',
      []]"

definition helpText :: string where
  "helpText = join newline helpLines"

text \<open>The configuration the constructor prints when the credential is missing (lines 139-153).\<close>

definition tokenYamlLines :: "string list" where
  "tokenYamlLines =
     [''tokens:'',
      ''  google-calendar:'',
      ''    env: GOOGLE_CALENDAR_ACCESS_TOKEN'',
      ''    type: oauth'',
      ''    domains:'',
      ''      - www.googleapis.com'',
      ''      - '' @ dquote @ ''*.googleapis.com'' @ dquote,
      ''    placement:'',
      ''      type: header'',
      ''      name: Authorization'',
      ''      format: '' @ dquote @ ''Bearer {token}'' @ dquote,
      ''    refreshEnv: GOOGLE_CALENDAR_REFRESH_TOKEN'',
      ''    refreshUrl: https://oauth2.googleapis.com/token'',
      ''    clientIdEnv: GOOGLE_CALENDAR_CLIENT_ID'',
      ''    clientSecretEnv: GOOGLE_CALENDAR_CLIENT_SECRET'']"

definition tokenSetupLines :: "string list" where
  "tokenSetupLines =
     [''Google Calendar token not configured.'',
      [],
      ''Add to ~/.pave/permissions.yaml:'',
      join newline tokenYamlLines,
      [],
      ''Then set environment variables:'',
      ''  GOOGLE_CALENDAR_CLIENT_ID, GOOGLE_CALENDAR_CLIENT_SECRET, GOOGLE_CALENDAR_REFRESH_TOKEN'']"

section \<open>The service client (CalendarClient, lines 128-281)\<close>

definition baseUrl :: string where
  "baseUrl = ''https://www.googleapis.com/calendar/v3''"

definition newClient :: "world \<Rightarrow> unit comp" where
  "newClient w =
     andThen (emit Construct)
       (if \<not> tokenSystem w
        then throw (newError ''Secure token system not available. Use: pave-run gcal.js'')
        else if \<not> hasToken w ''google-calendar''
        then andThen (emitAll (map Err tokenSetupLines))
               (throw (newError ''Google Calendar token not configured''))
        else ret ())"

text \<open>The error \<open>request\<close> builds from a response that is not \<open>ok\<close> (lines 176-181).\<close>

definition remoteError :: "response \<Rightarrow> jv \<Rightarrow> js_error + js_error" where
  "remoteError r body =
     (case getProp body ''error'' of
        Inl e \<Rightarrow> Inl e
      | Inr er \<Rightarrow>
          Inr \<lparr>message =
                 toStr (js_or (opt er ''message'')
                   (JStr (''HTTP '' @ show_int (rStatus r) @ '': '' @ rStatusText r))),
               status = JNum (rStatus r),
               code = opt er ''code'',
               data = body\<rparr>)"

definition request :: "world \<Rightarrow> string \<Rightarrow> jv comp" where
  "request w endpoint =
     tryCatch
       (andThen (emit (Fetch (baseUrl @ endpoint)))
          (case authenticatedFetch w (baseUrl @ endpoint) of
             Inl e \<Rightarrow> throw e
           | Inr r \<Rightarrow>
               if \<not> rOk r then
                 (case rJson r of
                    Inl e \<Rightarrow> throw e
                  | Inr body \<Rightarrow>
                      (case remoteError r body of Inl e \<Rightarrow> throw e | Inr err \<Rightarrow> throw err))
               else liftE (rJson r)))
       (\<lambda>error.
          if strIncludes (message error) ''Network permission denied''
          then throw (newError ''Network permission required: --allow-network=googleapis.com'')
          else throw error)"

text \<open>
  An object literal with a spread, \<open>{k1: v1, ..., ...options}\<close>: the own properties of
  \<open>options\<close> are copied over the literal's, in order.
\<close>

definition spread :: "(string \<times> jv) list \<Rightarrow> (string \<times> jv) list \<Rightarrow> (string \<times> jv) list" where
  "spread base opts = fold (\<lambda>(k, v) acc. update k v acc) opts base"

definition listCalendarsParams :: "(string \<times> jv) list \<Rightarrow> (string \<times> jv) list" where
  "listCalendarsParams opts =
     [(''maxResults'', js_or (lookup opts ''maxResults'') (JNum 250)),
      (''showDeleted'', js_or (lookup opts ''showDeleted'') (JBool False)),
      (''showHidden'', js_or (lookup opts ''showHidden'') (JBool False))]"

definition listCalendars :: "world \<Rightarrow> (string \<times> jv) list \<Rightarrow> jv comp" where
  "listCalendars w opts =
     request w (''/users/me/calendarList?'' @ buildQueryString (listCalendarsParams opts))"

definition getCalendar :: "world \<Rightarrow> jv \<Rightarrow> jv comp" where
  "getCalendar w calendarId = request w (''/calendars/'' @ encodeURIComponent (toStr calendarId))"

definition listEventsParams :: "(string \<times> jv) list \<Rightarrow> (string \<times> jv) list" where
  "listEventsParams opts =
     [(''timeMin'', lookup opts ''timeMin''),
      (''timeMax'', lookup opts ''timeMax''),
      (''q'', lookup opts ''query''),
      (''maxResults'', js_or (lookup opts ''maxResults'') (JNum 250)),
      (''singleEvents'', JBool (lookup opts ''singleEvents'' \<noteq> JBool False)),
      (''orderBy'', js_or (lookup opts ''orderBy'') (JStr ''startTime'')),
      (''showDeleted'', js_or (lookup opts ''showDeleted'') (JBool False))]"

text \<open>The default parameter \<open>calendarId = 'primary'\<close> applies to \<open>undefined\<close> only.\<close>

definition listEvents :: "world \<Rightarrow> jv \<Rightarrow> (string \<times> jv) list \<Rightarrow> jv comp" where
  "listEvents w calendarId opts =
     request w
       (''/calendars/''
        @ encodeURIComponent (toStr (if calendarId = JUndef then JStr ''primary'' else calendarId))
        @ ''/events?'' @ buildQueryString (listEventsParams opts))"

definition getEvent :: "world \<Rightarrow> jv \<Rightarrow> jv \<Rightarrow> jv comp" where
  "getEvent w calendarId eventId =
     request w
       (''/calendars/'' @ encodeURIComponent (toStr calendarId)
        @ ''/events/'' @ encodeURIComponent (toStr eventId))"

text \<open>The options object \<open>getTodayEvents\<close> hands to \<open>listEvents\<close> (lines 245-250).\<close>

definition todayOptions :: "world \<Rightarrow> (string \<times> jv) list \<Rightarrow> (string \<times> jv) list" where
  "todayOptions w opts =
     spread
       [(''timeMin'', JStr (isoString w (startOfDay w (nowMs w)))),
        (''timeMax'', JStr (isoString w (startOfNextDay w (nowMs w)))),
        (''maxResults'', js_or (lookup opts ''maxResults'') (JNum 50))]
       opts"

definition getTodayEvents :: "world \<Rightarrow> jv \<Rightarrow> (string \<times> jv) list \<Rightarrow> jv comp" where
  "getTodayEvents w calendarId opts = listEvents w calendarId (todayOptions w opts)"

text \<open>The options object of \<open>getUpcomingEvents\<close> (lines 260-265), its two dates given.\<close>

definition upcomingOptions :: "string \<Rightarrow> string \<Rightarrow> (string \<times> jv) list \<Rightarrow> (string \<times> jv) list" where
  "upcomingOptions tmin tmax opts =
     spread
       [(''timeMin'', JStr tmin),
        (''timeMax'', JStr tmax),
        (''maxResults'', js_or (lookup opts ''maxResults'') (JNum 100))]
       opts"

text \<open>\<open>now.getTime() + days * 24 * 60 * 60 * 1000\<close>; \<open>None\<close> is \<open>NaN\<close>.\<close>

definition endTime :: "world \<Rightarrow> jv \<Rightarrow> int option" where
  "endTime w days =
     (case toNumber days of None \<Rightarrow> None | Some d \<Rightarrow> Some (nowMs w + d * 24 * 60 * 60 * 1000))"

definition getUpcomingEvents :: "world \<Rightarrow> jv \<Rightarrow> jv \<Rightarrow> (string \<times> jv) list \<Rightarrow> jv comp" where
  "getUpcomingEvents w days calendarId opts =
     bind (liftE (toISOString w (Some (nowMs w)))) (\<lambda>tmin.
     bind (liftE (toISOString w (endTime w days))) (\<lambda>tmax.
       listEvents w calendarId (upcomingOptions tmin tmax opts)))"

text \<open>The options object of the client's \<open>searchEvents\<close> (lines 273-279).\<close>

definition searchOptions :: "jv \<Rightarrow> (string \<times> jv) list \<Rightarrow> (string \<times> jv) list" where
  "searchOptions query opts =
     spread
       [(''q'', query),
        (''timeMin'', lookup opts ''timeMin''),
        (''timeMax'', lookup opts ''timeMax''),
        (''maxResults'', js_or (lookup opts ''maxResults'') (JNum 50))]
       opts"

definition clientSearchEvents :: "world \<Rightarrow> jv \<Rightarrow> (string \<times> jv) list \<Rightarrow> jv comp" where
  "clientSearchEvents w query opts =
     listEvents w (js_or (lookup opts ''calendar'') (JStr ''primary'')) (searchOptions query opts)"

section \<open>The event formatter (EventFormatter, lines 284-343)\<close>

definition formatTime :: "world \<Rightarrow> jv \<Rightarrow> string" where
  "formatTime w v = (if \<not> truthy v then [] else localeTime w v)"

definition formatDate :: "world \<Rightarrow> jv \<Rightarrow> string" where
  "formatDate w v = (if \<not> truthy v then [] else localeDate w v)"

text \<open>
  \<open>EventFormatter.format\<close>: the normalized event, an object of sixteen properties. The
  first property it reads is \<open>event.start\<close>, which raises on \<open>null\<close> and \<open>undefined\<close>.
\<close>

definition format :: "jv \<Rightarrow> js_error + jv" where
  "format event =
     (if nullish event then Inl (cannotRead event ''start'')
      else
        Inr (JObj
          [(''id'', field event ''id''),
           (''summary'', js_or (field event ''summary'') (JStr ''(No title)'')),
           (''description'', js_or (field event ''description'') (JStr [])),
           (''location'', js_or (field event ''location'') (JStr [])),
           (''start'', js_or (opt (field event ''start'') ''dateTime'') (opt (field event ''start'') ''date'')),
           (''end'', js_or (opt (field event ''end'') ''dateTime'') (opt (field event ''end'') ''date'')),
           (''isAllDay'', JBool (\<not> truthy (opt (field event ''start'') ''dateTime''))),
           (''status'', field event ''status''),
           (''created'', field event ''created''),
           (''updated'', field event ''updated''),
           (''htmlLink'', field event ''htmlLink''),
           (''attendees'', js_or (field event ''attendees'') (JArr [])),
           (''attendeeCount'', field (js_or (field event ''attendees'') (JArr [])) ''length''),
           (''organizer'', field event ''organizer''),
           (''recurrence'', field event ''recurrence''),
           (''reminders'', field event ''reminders'')]))"

definition formatTimeRange :: "world \<Rightarrow> jv \<Rightarrow> js_error + string" where
  "formatTimeRange w event =
     (case format event of
        Inl e \<Rightarrow> Inl e
      | Inr formatted \<Rightarrow>
          if truthy (field formatted ''isAllDay'') then Inr ''All day''
          else Inr (formatTime w (field formatted ''start'') @ '' - ''
                    @ formatTime w (field formatted ''end'')))"

definition continuation :: "string \<Rightarrow> string \<Rightarrow> string" where
  "continuation mark body = newline @ padEnd [] 22 @ '' '' @ mark @ body"

definition formatSummary :: "world \<Rightarrow> jv \<Rightarrow> (string \<times> jv) list \<Rightarrow> js_error + string" where
  "formatSummary w event opts =
     (case format event of
        Inl e \<Rightarrow> Inl e
      | Inr formatted \<Rightarrow>
          (case formatTimeRange w event of
             Inl e \<Rightarrow> Inl e
           | Inr timeRange \<Rightarrow>
               Inr (padEnd timeRange 20 @ '' '' @ toStr (field formatted ''summary'')
                 @ (if truthy (lookup opts ''showLocation'') \<and> truthy (field formatted ''location'')
                    then continuation markPin ('' '' @ toStr (field formatted ''location''))
                    else [])
                 @ (if truthy (lookup opts ''showAttendees'')
                       \<and> greaterThan (field formatted ''attendeeCount'') 0
                    then continuation markPeople
                           ('' '' @ toStr (field formatted ''attendeeCount'') @ '' attendee(s)'')
                    else [])
                 @ (if truthy (lookup opts ''showStatus'')
                       \<and> field formatted ''status'' \<noteq> JStr ''confirmed''
                    then continuation markWarn (''  '' @ toStr (field formatted ''status''))
                    else []))))"

section \<open>The command handlers (lines 390-668)\<close>

text \<open>Iterating a value with \<open>for ... of\<close>: an array by elements, a string by characters.\<close>

definition iterate :: "string \<Rightarrow> jv \<Rightarrow> js_error + jv list" where
  "iterate what v =
     (case v of
        JArr xs \<Rightarrow> Inr xs
      | JStr s \<Rightarrow> Inr (map (\<lambda>c. JStr [c]) s)
      | _ \<Rightarrow> Inl (newError (what @ '' is not iterable'')))"

text \<open>\<open>args.options.calendar || args.options.c || 'primary'\<close>.\<close>

definition calendarOption :: "parsedArgs \<Rightarrow> jv" where
  "calendarOption args =
     js_or (js_or (lookup (options args) ''calendar'') (lookup (options args) ''c''))
       (JStr ''primary'')"

text \<open>\<open>args.options.max ? parseInt(args.options.max) : d\<close>.\<close>

definition maxOption :: "parsedArgs \<Rightarrow> int \<Rightarrow> jv" where
  "maxOption args d =
     (if truthy (lookup (options args) ''max'') then parseInt (lookup (options args) ''max'')
      else JNum d)"

text \<open>\<open>args.positional[0]\<close>, \<open>undefined\<close> when there is none.\<close>

definition positional0 :: "parsedArgs \<Rightarrow> jv" where
  "positional0 args = (case positional args of [] \<Rightarrow> JUndef | x # _ \<Rightarrow> JStr x)"

text \<open>The display options every listing hands to \<open>formatSummary\<close>.\<close>

definition summaryOptions :: "parsedArgs \<Rightarrow> (string \<times> jv) list" where
  "summaryOptions args =
     [(''showLocation'', JBool (\<not> truthy (lookup (options args) ''summary''))),
      (''showAttendees'', lookup (options args) ''full''),
      (''showStatus'', lookup (options args) ''full'')]"

text \<open>\<open>event.start?.dateTime || event.start?.date\<close>.\<close>

definition eventStart :: "jv \<Rightarrow> js_error + jv" where
  "eventStart event =
     (case getProp event ''start'' of
        Inl e \<Rightarrow> Inl e
      | Inr st \<Rightarrow> Inr (js_or (opt st ''dateTime'') (opt st ''date'')))"

text \<open>\<open>v && v.length > 0\<close>.\<close>

definition nonEmpty :: "jv \<Rightarrow> bool" where
  "nonEmpty v = (truthy v \<and> greaterThan (field v ''length'') 0)"

subsection \<open>auth\<close>

fun findPrimary :: "jv list \<Rightarrow> js_error + jv" where
  "findPrimary [] = Inr JUndef"
| "findPrimary (cal # cals) =
     (case getProp cal ''primary'' of
        Inl e \<Rightarrow> Inl e
      | Inr v \<Rightarrow> if truthy v then Inr cal else findPrimary cals)"

text \<open>\<open>items.find(cal => cal.primary)\<close>: only an array has the method.\<close>

definition findPrimaryIn :: "jv \<Rightarrow> js_error + jv" where
  "findPrimaryIn items =
     (case items of
        JArr xs \<Rightarrow> findPrimary xs
      | _ \<Rightarrow> Inl (newError ''calendars.items.find is not a function''))"

definition checkAuth :: "world \<Rightarrow> unit comp" where
  "checkAuth w =
     tryCatch
       (bind (newClient w) (\<lambda>_.
        bind (listCalendars w [(''maxResults'', JNum 1)]) (\<lambda>calendars.
        andThen (emit (Out (markCheck @ '' Authentication successful'')))
        (bind (liftE (getProp calendars ''items'')) (\<lambda>items.
         andThen (emit (Out (markCalendar @ '' Access to ''
                    @ toStr (js_or (opt items ''length'') (JNum 0)) @ '' calendar(s) confirmed'')))
         (andThen (emit (Out (markLock
                    @ '' Using secure token system (credentials not exposed to sandbox)'')))
         (if nonEmpty items then
            bind (liftE (findPrimaryIn items)) (\<lambda>primary.
              if truthy primary
              then emit (Out (markMail @ '' Primary calendar: '' @ toStr (field primary ''summary'')))
              else ret ())
          else ret ())))))))
       (\<lambda>error.
          andThen (emit (Err (markCross @ '' Authentication failed: '' @ message error)))
          (andThen (if strIncludes (message error) ''not configured''
                    then emit (Err (markBulb
                           @ '' Configure google-calendar token in ~/.pave/permissions.yaml''))
                    else ret ())
             (processExit 1)))"

subsection \<open>calendars\<close>

definition calendarLines :: "parsedArgs \<Rightarrow> jv \<Rightarrow> js_error + effect list" where
  "calendarLines args cal =
     (if nullish cal then Inl (cannotRead cal ''primary'')
      else Inr
        ([Out (markCalendar @ '' '' @ toStr (field cal ''summary'')
               @ (if truthy (field cal ''primary'') then '' (PRIMARY)'' else [])
               @ (if truthy (field cal ''accessRole'')
                  then '' ['' @ toStr (field cal ''accessRole'') @ '']'' else []))]
         @ (if \<not> truthy (lookup (options args) ''summary'') then
              [Out (''   ID: '' @ toStr (field cal ''id''))]
              @ (if truthy (field cal ''description'')
                 then [Out (''   Description: '' @ toStr (field cal ''description''))] else [])
              @ (if truthy (field cal ''timeZone'')
                 then [Out (''   Timezone: '' @ toStr (field cal ''timeZone''))] else [])
              @ [Out []]
            else [])))"

fun calendarLoop :: "parsedArgs \<Rightarrow> jv list \<Rightarrow> unit comp" where
  "calendarLoop args [] = ret ()"
| "calendarLoop args (cal # cals) =
     (case calendarLines args cal of
        Inl e \<Rightarrow> throw e
      | Inr ls \<Rightarrow> andThen (emitAll ls) (calendarLoop args cals))"

definition listCalendarsCmd :: "world \<Rightarrow> parsedArgs \<Rightarrow> unit comp" where
  "listCalendarsCmd w args =
     tryCatch
       (bind (newClient w) (\<lambda>_.
        bind (listCalendars w [(''maxResults'', maxOption args 250)]) (\<lambda>calendars.
          if truthy (lookup (options args) ''json'') then emit (Out (stringify w calendars))
          else
            bind (liftE (getProp calendars ''items'')) (\<lambda>items.
            andThen (emit (Out (markCalendar @ '' Found ''
                       @ toStr (js_or (opt items ''length'') (JNum 0)) @ '' calendar(s):'' @ newline)))
              (if nonEmpty items
               then bind (liftE (iterate ''calendars.items'' items)) (calendarLoop args)
               else ret ())))))
       (\<lambda>error.
          andThen (emit (Err (markCross @ '' Failed to list calendars: '' @ message error)))
            (processExit 1))"

subsection \<open>today\<close>

fun todayLoop :: "world \<Rightarrow> parsedArgs \<Rightarrow> jv list \<Rightarrow> unit comp" where
  "todayLoop w args [] = ret ()"
| "todayLoop w args (event # rest) =
     (case formatSummary w event (summaryOptions args) of
        Inl e \<Rightarrow> throw e
      | Inr summary \<Rightarrow>
          andThen (emit (Out (markClock @ '' '' @ summary @ newline))) (todayLoop w args rest))"

definition showToday :: "world \<Rightarrow> parsedArgs \<Rightarrow> unit comp" where
  "showToday w args =
     tryCatch
       (bind (newClient w) (\<lambda>_.
        bind (getTodayEvents w (calendarOption args) [(''maxResults'', maxOption args 50)])
          (\<lambda>events.
          if truthy (lookup (options args) ''json'') then emit (Out (stringify w events))
          else
            andThen (emit (Out (markCalendar @ '' Events for ''
                       @ formatDate w (JStr (isoString w (nowMs w))) @ '':'' @ newline)))
            (bind (liftE (getProp events ''items'')) (\<lambda>items.
               if nonEmpty items
               then bind (liftE (iterate ''events.items'' items)) (todayLoop w args)
               else emit (Out (markCalendar @ '' No events scheduled for today'')))))))
       (\<lambda>error.
          andThen (emit (Err (markCross @ '' Failed to get today'' @ squote @ ''s events: ''
                     @ message error)))
            (processExit 1))"

subsection \<open>upcoming\<close>

text \<open>The number of days: the positional argument before \<open>--days\<close> before \<open>-d\<close> before 7.\<close>

definition upcomingDays :: "parsedArgs \<Rightarrow> jv" where
  "upcomingDays args =
     (if truthy (positional0 args) then parseInt (positional0 args)
      else if truthy (lookup (options args) ''days'') then parseInt (lookup (options args) ''days'')
      else if truthy (lookup (options args) ''d'') then parseInt (lookup (options args) ''d'')
      else JNum 7)"

definition maxDisplay :: "parsedArgs \<Rightarrow> nat" where
  "maxDisplay args = (if truthy (lookup (options args) ''summary'') then 10 else 50)"

text \<open>
  The display loop (lines 517-536): it stops at \<open>maxDisplay\<close> events, prints a separator
  when the date changes, then the event's summary.
\<close>

fun upcomingLoop :: "world \<Rightarrow> parsedArgs \<Rightarrow> jv list \<Rightarrow> string \<Rightarrow> nat \<Rightarrow> unit comp" where
  "upcomingLoop w args [] currentDate count = ret ()"
| "upcomingLoop w args (event # rest) currentDate count =
     (if count \<ge> maxDisplay args then ret ()
      else
        (case eventStart event of
           Inl e \<Rightarrow> throw e
         | Inr start \<Rightarrow>
             andThen
               (if formatDate w start \<noteq> currentDate
                then emit (Out (''--- '' @ formatDate w start @ '' ---'')) else ret ())
               (case formatSummary w event (summaryOptions args) of
                  Inl e \<Rightarrow> throw e
                | Inr summary \<Rightarrow>
                    andThen (emit (Out (markClock @ '' '' @ summary @ newline)))
                      (upcomingLoop w args rest
                         (if formatDate w start \<noteq> currentDate then formatDate w start
                          else currentDate)
                         (count + 1)))))"

definition moreNotice :: "parsedArgs \<Rightarrow> jv \<Rightarrow> unit comp" where
  "moreNotice args items =
     (if greaterThan (field items ''length'') (int (maxDisplay args)) then
        andThen (emit (Out (''... and '' @ toStr (minus (field items ''length'') (int (maxDisplay args)))
                   @ '' more events'')))
          (emit (Out (markBulb
             @ '' Use --max to increase limit or remove --summary for more details'')))
      else ret ())"

definition showUpcoming :: "world \<Rightarrow> parsedArgs \<Rightarrow> unit comp" where
  "showUpcoming w args =
     tryCatch
       (bind (newClient w) (\<lambda>_.
        bind (getUpcomingEvents w (upcomingDays args) (calendarOption args)
                [(''maxResults'', maxOption args 100)]) (\<lambda>events.
          if truthy (lookup (options args) ''json'') then emit (Out (stringify w events))
          else
            andThen (emit (Out (markCalendar @ '' Upcoming events (next ''
                       @ toStr (upcomingDays args) @ '' days):'' @ newline)))
            (bind (liftE (getProp events ''items'')) (\<lambda>items.
               if nonEmpty items then
                 bind (liftE (iterate ''events.items'' items)) (\<lambda>xs.
                 andThen (upcomingLoop w args xs [] 0) (moreNotice args items))
               else emit (Out (markCalendar @ '' No upcoming events in the next ''
                            @ toStr (upcomingDays args) @ '' days'')))))))
       (\<lambda>error.
          andThen (emit (Err (markCross @ '' Failed to get upcoming events: '' @ message error)))
            (processExit 1))"

subsection \<open>search\<close>

text \<open>The options object the handler builds (lines 563-576); a bad date raises.\<close>

definition withDate :: "world \<Rightarrow> string \<Rightarrow> jv \<Rightarrow> (string \<times> jv) list \<Rightarrow> js_error + (string \<times> jv) list" where
  "withDate w k d opts =
     (if truthy d then
        (case toISOString w (dateParse w d) of
           Inl e \<Rightarrow> Inl e
         | Inr isoText \<Rightarrow> Inr (update k (JStr isoText) opts))
      else Inr opts)"

definition searchCmdOptions :: "world \<Rightarrow> parsedArgs \<Rightarrow> js_error + (string \<times> jv) list" where
  "searchCmdOptions w args =
     (case withDate w ''timeMin''
             (js_or (lookup (options args) ''from'') (lookup (options args) ''f''))
             [(''calendar'', calendarOption args), (''maxResults'', maxOption args 50)] of
        Inl e \<Rightarrow> Inl e
      | Inr opts \<Rightarrow>
          withDate w ''timeMax''
            (js_or (lookup (options args) ''to'') (lookup (options args) ''t'')) opts)"

fun searchLoop :: "world \<Rightarrow> parsedArgs \<Rightarrow> jv list \<Rightarrow> unit comp" where
  "searchLoop w args [] = ret ()"
| "searchLoop w args (event # rest) =
     (case eventStart event of
        Inl e \<Rightarrow> throw e
      | Inr start \<Rightarrow>
          (case formatSummary w event (summaryOptions args) of
             Inl e \<Rightarrow> throw e
           | Inr summary \<Rightarrow>
               andThen (emit (Out (markCalendar @ '' '' @ formatDate w start)))
                 (andThen (emit (Out (markClock @ '' '' @ summary @ newline)))
                    (searchLoop w args rest))))"

definition searchUsage :: "effect list" where
  "searchUsage =
     [Err (markCross @ '' Search query required''),
      Err (''Usage: node gcal.js search '' @ dquote @ ''meeting'' @ dquote)]"

definition searchEvents :: "world \<Rightarrow> parsedArgs \<Rightarrow> unit comp" where
  "searchEvents w args =
     tryCatch
       (if positional args = [] then andThen (emitAll searchUsage) (processExit 1)
        else
          bind (newClient w) (\<lambda>_.
          bind (liftE (searchCmdOptions w args)) (\<lambda>opts.
          bind (clientSearchEvents w (positional0 args) opts) (\<lambda>events.
            if truthy (lookup (options args) ''json'') then emit (Out (stringify w events))
            else
              andThen (emit (Out (markSearch @ '' Search results for '' @ dquote
                         @ toStr (positional0 args) @ dquote @ '':'' @ newline)))
              (bind (liftE (getProp events ''items'')) (\<lambda>items.
                 if nonEmpty items
                 then bind (liftE (iterate ''events.items'' items)) (searchLoop w args)
                 else emit (Out (markCalendar @ '' No events found matching '' @ dquote
                              @ toStr (positional0 args) @ dquote))))))))
       (\<lambda>error.
          andThen (emit (Err (markCross @ '' Search failed: '' @ message error)))
            (processExit 1))"

subsection \<open>event\<close>

definition attendeeLine :: "jv \<Rightarrow> js_error + effect" where
  "attendeeLine a =
     (if nullish a then Inl (cannotRead a ''displayName'')
      else Inr (Out (''  - '' @ toStr (js_or (field a ''displayName'') (field a ''email''))
                     @ '' ('' @ toStr (js_or (field a ''responseStatus'') (JStr ''unknown''))
                     @ '')'')))"

fun attendeeLoop :: "jv list \<Rightarrow> unit comp" where
  "attendeeLoop [] = ret ()"
| "attendeeLoop (a # rest) =
     (case attendeeLine a of
        Inl e \<Rightarrow> throw e
      | Inr l \<Rightarrow> andThen (emit l) (attendeeLoop rest))"

text \<open>\<open>attendees.slice(0, 10)\<close>, ready for \<open>for ... of\<close>: arrays and strings have \<open>slice\<close>.\<close>

definition firstTen :: "jv \<Rightarrow> js_error + jv list" where
  "firstTen v =
     (case v of
        JArr xs \<Rightarrow> Inr (take 10 xs)
      | JStr s \<Rightarrow> Inr (map (\<lambda>c. JStr [c]) (take 10 s))
      | _ \<Rightarrow> Inl (newError ''formatted.attendees.slice is not a function''))"

definition attendeeBlock :: "jv \<Rightarrow> unit comp" where
  "attendeeBlock attendees =
     (if greaterThan (field attendees ''length'') 0 then
        andThen (emit (Out (newline @ ''Attendees ('' @ toStr (field attendees ''length'') @ ''):'')))
        (andThen (bind (liftE (firstTen attendees)) attendeeLoop)
           (if greaterThan (field attendees ''length'') 10
            then emit (Out (''  ... and '' @ toStr (minus (field attendees ''length'') 10)
                            @ '' more''))
            else ret ()))
      else ret ())"

definition whenTruthy :: "jv \<Rightarrow> string \<Rightarrow> unit comp" where
  "whenTruthy v label = (if truthy v then emit (Out (label @ toStr v)) else ret ())"

text \<open>Statements run one after the other.\<close>

fun seqAll :: "unit comp list \<Rightarrow> unit comp" where
  "seqAll [] = ret ()"
| "seqAll (m # ms) = andThen m (seqAll ms)"

text \<open>The detail block (lines 629-663).\<close>

definition eventDetails :: "world \<Rightarrow> jv \<Rightarrow> unit comp" where
  "eventDetails w event =
     bind (liftE (format event)) (\<lambda>formatted.
       seqAll
         [emit (Out (markCalendar @ '' Event Details:'' @ newline)),
          emit (Out (''Title: '' @ toStr (field formatted ''summary''))),
          bind (liftE (formatTimeRange w event)) (\<lambda>timeRange. emit (Out (''Time: '' @ timeRange))),
          emit (Out (''Date: '' @ formatDate w (field formatted ''start''))),
          whenTruthy (field formatted ''location'') ''Location: '',
          whenTruthy (field formatted ''description'') ''Description: '',
          attendeeBlock (field formatted ''attendees''),
          emit (Out (newline @ ''Status: '' @ toStr (field formatted ''status''))),
          emit (Out (''Created: '' @ localeString w (field formatted ''created''))),
          emit (Out (''Updated: '' @ localeString w (field formatted ''updated''))),
          whenTruthy (field formatted ''htmlLink'') ''Link: ''])"

definition eventUsage :: "effect list" where
  "eventUsage =
     [Err (markCross @ '' Event ID required''),
      Err ''Usage: node gcal.js event <eventId>'']"

definition showEvent :: "world \<Rightarrow> parsedArgs \<Rightarrow> unit comp" where
  "showEvent w args =
     tryCatch
       (if positional args = [] then andThen (emitAll eventUsage) (processExit 1)
        else
          bind (newClient w) (\<lambda>_.
          bind (getEvent w (calendarOption args) (positional0 args)) (\<lambda>event.
            if truthy (lookup (options args) ''json'') then emit (Out (stringify w event))
            else eventDetails w event)))
       (\<lambda>error.
          andThen (emit (Err (markCross @ '' Failed to get event: '' @ message error)))
            (processExit 1))"

section \<open>Dispatch (main, lines 671-735)\<close>

definition dispatch :: "world \<Rightarrow> string \<Rightarrow> parsedArgs \<Rightarrow> unit comp" where
  "dispatch w c parsed =
     (if c = ''auth'' then checkAuth w
      else if c = ''calendars'' then listCalendarsCmd w parsed
      else if c = ''today'' then showToday w parsed
      else if c = ''upcoming'' then showUpcoming w parsed
      else if c = ''search'' then searchEvents w parsed
      else if c = ''event'' then showEvent w parsed
      else if c = ''list'' then showUpcoming w (setOption ''days'' (JStr ''365'') parsed)
      else
        andThen (emit (Err (markCross @ '' Unknown command: '' @ c)))
          (andThen (emit (Err (markBulb @ '' Run: node gcal.js help''))) (processExit 1)))"

text \<open>The error envelope of \<open>main\<close>'s own \<open>catch\<close> (lines 724-728).\<close>

definition errorEnvelope :: "js_error \<Rightarrow> jv" where
  "errorEnvelope error =
     JObj [(''error'', JStr (message error)), (''status'', status error), (''data'', data error)]"

definition mainCatch :: "world \<Rightarrow> parsedArgs \<Rightarrow> js_error \<Rightarrow> unit comp" where
  "mainCatch w parsed error =
     andThen (emit (Err (markCross @ '' Execution failed: '' @ message error)))
     (andThen (if strIncludes (message error) ''Secure token system''
               then emit (Err (markBulb @ '' This script must run in sandbox: pave-run gcal.js''))
               else ret ())
     (andThen (if truthy (lookup (options parsed) ''json'')
               then emit (Err (stringify w (errorEnvelope error)))
               else if debugEnv w then emit (Err (''Stack trace: '' @ stackOf w error))
               else ret ())
        (processExit 1)))"

text \<open>
  How the process ends: exit code 0 after a normal return, the code given to
  \<open>process.exit\<close>, or 1 with the stack on standard error after an uncaught exception.
\<close>

definition finish :: "world \<Rightarrow> unit comp \<Rightarrow> effect list \<times> nat" where
  "finish w m =
     (case m of
        (tr, Val _) \<Rightarrow> (tr, 0)
      | (tr, Exited n) \<Rightarrow> (tr, n)
      | (tr, Thrown e) \<Rightarrow> (tr @ [Err (stackOf w e)], 1))"

definition wantsHelp :: "parsedArgs \<Rightarrow> bool" where
  "wantsHelp parsed =
     (command parsed = None \<or> command parsed = Some [] \<or> command parsed = Some ''help''
      \<or> truthy (lookup (options parsed) ''help''))"

definition main :: "world \<Rightarrow> string list \<Rightarrow> effect list \<times> nat" where
  "main w argv =
     (case parseArgs argv of
        Inl e \<Rightarrow> ([Err (stackOf w e)], 1)
      | Inr parsed \<Rightarrow>
          if wantsHelp parsed then ([Out helpText], 0)
          else
            (case command parsed of
               None \<Rightarrow> ([Out helpText], 0)
             | Some c \<Rightarrow> finish w (tryCatch (dispatch w c parsed) (mainCatch w parsed))))"

section \<open>Notions used in the statements\<close>

text \<open>A value the parser may store for an option: a string or the boolean \<open>true\<close>.\<close>

fun isOptionValue :: "jv \<Rightarrow> bool" where
  "isOptionValue (JStr s) = True"
| "isOptionValue (JBool b) = b"
| "isOptionValue v = False"

definition parsedOk :: "js_error + parsedArgs \<Rightarrow> bool" where
  "parsedOk r =
     (case r of Inl e \<Rightarrow> False | Inr q \<Rightarrow> list_all isOptionValue (map snd (options q)))"

text \<open>Normalizing the normalized event once more.\<close>

definition renormalize :: "jv \<Rightarrow> js_error + jv" where
  "renormalize event = (case format event of Inl e \<Rightarrow> Inl e | Inr n \<Rightarrow> format n)"

text \<open>
  An event record is well formed in its times when \<open>dateTime\<close> and \<open>date\<close> of \<open>start\<close> and
  \<open>end\<close> are strings or absent.
\<close>

fun isTimeValue :: "jv \<Rightarrow> bool" where
  "isTimeValue JUndef = True"
| "isTimeValue (JStr s) = True"
| "isTimeValue v = False"

definition wellFormedTimes :: "jv \<Rightarrow> bool" where
  "wellFormedTimes event =
     (isTimeValue (opt (field event ''start'') ''dateTime'')
      \<and> isTimeValue (opt (field event ''start'') ''date'')
      \<and> isTimeValue (opt (field event ''end'') ''dateTime'')
      \<and> isTimeValue (opt (field event ''end'') ''date''))"

text \<open>A normalized event with its times removed: no start, no end, all-day.\<close>

definition withoutTimes :: "jv \<Rightarrow> jv" where
  "withoutTimes n =
     (case n of
        JObj ps \<Rightarrow>
          JObj (update ''isAllDay'' (JBool True) (update ''end'' JUndef (update ''start'' JUndef ps)))
      | v \<Rightarrow> v)"

text \<open>The events a run displays: the lines that open with the clock mark.\<close>

fun isEventLine :: "effect \<Rightarrow> bool" where
  "isEventLine (Out s) = startsWith s (markClock @ '' '')"
| "isEventLine ef = False"

definition displayed :: "'a comp \<Rightarrow> nat" where
  "displayed m = length (filter isEventLine (fst m))"


subsection \<open>Sample data\<close>

definition notFoundBody :: jv where
  "notFoundBody =
     JObj [(''error'', JObj [(''code'', JNum 404), (''message'', JStr ''Not Found'')])]"

definition notFound :: response where
  "notFound =
     \<lparr>rOk = False, rStatus = 404, rStatusText = ''Not Found'', rJson = Inr notFoundBody\<rparr>"



definition timedEvent :: jv where
  "timedEvent =
     JObj [(''id'', JStr ''e1''), (''summary'', JStr ''Standup''),
           (''start'', JObj [(''dateTime'', JStr ''2026-01-17T09:00:00+08:00'')]),
           (''end'', JObj [(''dateTime'', JStr ''2026-01-17T10:00:00+08:00'')]),
           (''status'', JStr ''confirmed'')]"


text \<open>The same event as the service may send it, without a \<open>status\<close>.\<close>

definition noStatusEvent :: jv where
  "noStatusEvent =
     JObj [(''id'', JStr ''e3''), (''summary'', JStr ''Offsite''),
           (''start'', JObj [(''date'', JStr ''2026-01-17'')]),
           (''end'', JObj [(''date'', JStr ''2026-01-18'')])]"

definition upcoming14 :: parsedArgs where
  "upcoming14 =
     \<lparr>command = Some ''upcoming'', positional = [''14''], options = [(''summary'', JBool True)]\<rparr>"

section \<open>Lemmas\<close>

lemmas comp_defs = andThen_def bind_def emit_def emitAll_def ret_def throw_def tryCatch_def
  processExit_def liftE_def

lemmas parse_defs = parseArgs_def parseLoop.simps argStartsWith_def nextIsValue_def startsWith_def
  longKey_def longValue_def split_limit_def setOption_def setProp_def addWord_def emptyParsed_def

subsection \<open>The parser\<close>

lemma setProp_values:
  "list_all isOptionValue (map snd ps) \<Longrightarrow> isOptionValue v \<Longrightarrow>
   list_all isOptionValue (map snd (setProp k v ps))"
  by (induction ps) (auto simp: setProp_def)

lemma parseLoop_ok:
  "list_all isOptionValue (map snd (options p)) \<Longrightarrow> parsedOk (parseLoop args i p)"
proof (induction args i p rule: parseLoop.induct)
  case (1 args i p)
  then show ?case
    apply (subst parseLoop.simps)
    apply (auto simp: argStartsWith_def nextIsValue_def setOption_def addWord_def setProp_values
        parsedOk_def [of "Inr _"] parsedOk_def [of "Inl _"]
        split: sum.splits bool.splits option.splits)
      apply blast+
    done
qed

lemma parse_list_primary:
  "parseArgs [''list'', ''primary'', ''--max'', ''20''] =
     Inr \<lparr>command = Some ''list'', positional = [''primary''], options = [(''max'', JStr ''20'')]\<rparr>"
  by (simp add: parse_defs)

lemma parse_upcoming14: "parseArgs [''upcoming'', ''14'', ''--summary''] = Inr upcoming14"
  by (simp add: parse_defs upcoming14_def)


lemma parseInt_primary: "parseInt (JStr ''primary'') = JNaN"
  by (simp add: parseInt_def startsWith_def leadingDigits_def digitVal_def isSpace_def)

subsection \<open>Objects\<close>





subsection \<open>The query string\<close>


subsection \<open>Truthiness\<close>

lemma time_opt: "isTimeValue v \<Longrightarrow> opt v k = JUndef" if "k = ''dateTime'' \<or> k = ''date''"
  using that by (cases v) (auto simp: opt_def nullish_def)

lemma js_or_time: "isTimeValue a \<Longrightarrow> isTimeValue b \<Longrightarrow> isTimeValue (js_or a b)"
  by (simp add: js_or_def)

lemma js_or_idem: "js_or (js_or a b) b = js_or a b"
  by (simp add: js_or_def)

lemma truthy_or: "truthy b \<Longrightarrow> truthy (js_or a b)"
  by (simp add: js_or_def)

lemma js_or_truthy: "truthy a \<Longrightarrow> js_or a b = a"
  by (simp add: js_or_def)

lemma opt_undef: "opt JUndef k = JUndef"
  by (simp add: opt_def nullish_def)

lemma js_or_undef: "js_or JUndef b = b"
  by (simp add: js_or_def)

lemma js_or_undef_iff: "js_or a b = JUndef \<Longrightarrow> \<not> truthy a"
  by (auto simp: js_or_def split: if_splits)

subsection \<open>Traces\<close>




lemma displayed_simple [simp]:
  "displayed (ret x) = 0" "displayed (throw e) = 0" "displayed (processExit k) = 0"
  "displayed (liftE r) = 0" "displayed (emit (Err s)) = 0" "displayed (emit (Fetch u)) = 0"
  "displayed (emit Construct) = 0"
  by (auto simp: displayed_def ret_def throw_def processExit_def liftE_def emit_def
      split: sum.splits)

lemma displayed_lines [simp]:
  "displayed (emit (Out (CHR ''-'' # s))) = 0"
  "displayed (emit (Out (CHR ''.'' # s))) = 0"
  "displayed (emit (Out (markCalendar @ s))) = 0"
  "displayed (emit (Out (markBulb @ s))) = 0"
  "displayed (emit (Out (markClock @ CHR '' '' # s))) = 1"
  by (simp_all add: displayed_def emit_def startsWith_def markCalendar_def markClock_def
      markBulb_def)

lemma snd_simple [simp]:
  "snd (ret x) = Val x" "snd (throw e) = Thrown e" "snd (processExit k) = Exited k"
  "snd (emit ef) = Val ()"
  by (auto simp: ret_def throw_def processExit_def emit_def)





subsection \<open>The client and the formatter\<close>









subsection \<open>Re-normalization\<close>

lemma format_again:
  assumes ev: "\<not> nullish event" and n: "format event = Inr n" and wf: "wellFormedTimes event"
  shows "format n = Inr (withoutTimes n)"
proof -
  let ?s = "js_or (opt (field event ''start'') ''dateTime'') (opt (field event ''start'') ''date'')"
  let ?e = "js_or (opt (field event ''end'') ''dateTime'') (opt (field event ''end'') ''date'')"
  from wf have s: "isTimeValue ?s" and e: "isTimeValue ?e"
    by (simp_all add: wellFormedTimes_def js_or_time)
  have os: "opt ?s ''dateTime'' = JUndef" "opt ?s ''date'' = JUndef"
    and oe: "opt ?e ''dateTime'' = JUndef" "opt ?e ''date'' = JUndef"
    using s e by (simp_all add: time_opt)
  show ?thesis
    using n ev os oe
    by (auto simp: format_def withoutTimes_def nullish_def js_or_idem js_or_truthy truthy_or
        js_or_undef)
qed

lemma format_withoutTimes:
  assumes ev: "\<not> nullish event" and n: "format event = Inr n"
  shows "format (withoutTimes n) = Inr (withoutTimes n)"
  using n ev
  by (cases n)
    (simp_all add: format_def withoutTimes_def nullish_def opt_undef js_or_idem js_or_truthy
      truthy_or js_or_undef)

lemma withoutTimes_same:
  assumes ev: "\<not> nullish event" and n: "format event = Inr n"
  shows "withoutTimes n = n \<longleftrightarrow> field n ''start'' = JUndef \<and> field n ''end'' = JUndef"
  using n ev
    js_or_undef_iff [of "opt (field event ''start'') ''dateTime''" "opt (field event ''start'') ''date''"]
  by (auto simp: format_def withoutTimes_def)

subsection \<open>The display loop\<close>









section \<open>The claims\<close>

text \<open>
  Claim C1: every invocation of the \<open>list\<close> command, with or without a \<open>[calendar]\<close>
  positional argument, forces a 365-day window and then behaves as \<open>upcoming\<close>; the window
  runs from now to now plus 365 days and the positional argument selects the calendar.

  The program sets \<open>options.days\<close> to 365, but \<open>showUpcoming\<close> reads the positional
  argument as the number of days before it looks at \<open>options.days\<close>, and takes the calendar
  from \<open>--calendar\<close> or \<open>-c\<close> only. On \<open>list primary --max 20\<close>, the example of the
  program's own usage text (line 378), the number of days is \<open>parseInt('primary')\<close>, which
  is \<open>NaN\<close>: the end date is invalid, \<open>toISOString\<close> raises, no request is sent and the
  process exits 1.
\<close>

theorem list_positional_read_as_days:
  "main (w\<lparr>tokenSystem := True, hasToken := (\<lambda>_. True)\<rparr>) [''list'', ''primary'', ''--max'', ''20''] =
     ([Construct, Err (markCross @ '' Failed to get upcoming events: Invalid time value'')], 1)"
  by (simp add: main_def parse_list_primary wantsHelp_def dispatch_def showUpcoming_def
      newClient_def comp_defs finish_def getUpcomingEvents_def toISOString_def endTime_def
      upcomingDays_def positional0_def parseInt_primary setOption_def setProp_def
      invalidTime_def newError_def)

text \<open>
  Claim C2: with \<open>--json\<close> set, a command that fails with a remote error (\<open>event <id>\<close>
  answered by HTTP 404) exits 1 and writes the JSON error envelope, its status field 404,
  to standard error.

  The process exits 1, and the error \<open>request\<close> raises carries the status 404; but
  \<open>showEvent\<close> catches it, prints the plain message and ends the process, so the envelope
  of \<open>main\<close>'s own \<open>catch\<close> (lines 723-728) is never written.
\<close>

theorem event_not_found_prints_no_envelope:
  "main (w\<lparr>tokenSystem := True, hasToken := (\<lambda>_. True),
            authenticatedFetch := (\<lambda>_. Inr notFound)\<rparr>)
        [''event'', ''abc'', ''--json''] =
     ([Construct,
       Fetch ''https://www.googleapis.com/calendar/v3/calendars/primary/events/abc'',
       Err (markCross @ '' Failed to get event: Not Found'')], 1)
   \<and> remoteError notFound notFoundBody =
       Inr \<lparr>message = ''Not Found'', status = JNum 404, code = JNum 404, data = notFoundBody\<rparr>"
  by (simp add: main_def parse_defs wantsHelp_def dispatch_def showEvent_def newClient_def
      comp_defs finish_def getEvent_def request_def remoteError_def getProp_def nullish_def
      opt_def js_or_def calendarOption_def positional0_def notFound_def notFoundBody_def
      baseUrl_def encodeURIComponent_def encodeChar_def unreserved_def)

text \<open>
  Claim C3: normalization is total and idempotent: \<open>EventFormatter.format\<close> never throws
  on a well-formed event record, and applied to the normalized event it produced it yields
  the same normalized event.

  It is total, but not idempotent: the normalized event holds \<open>start\<close> and \<open>end\<close> as
  strings, where \<open>format\<close> looks for \<open>start.dateTime\<close> and \<open>start.date\<close>. For a timed event
  the second normalization has no start, no end and is all-day.
\<close>

theorem format_not_idempotent: "renormalize timedEvent \<noteq> format timedEvent"
  by (simp add: renormalize_def format_def timedEvent_def nullish_def opt_def js_or_def)

text \<open>
  Claim C3 as amended: \<open>format\<close> never throws on an event record (any value but \<open>null\<close>
  and \<open>undefined\<close>). Applied to the normalized event of a record with well-formed times, it
  keeps every property but \<open>start\<close>, \<open>end\<close> and \<open>isAllDay\<close>, which become \<open>undefined\<close>,
  \<open>undefined\<close> and \<open>true\<close>; from then on it changes nothing. So it yields the same
  normalized event exactly when that event has neither start nor end.
\<close>

theorem format_total_renormalize_drops_times:
  assumes "\<not> nullish event"
  shows "\<exists>n. format event = Inr n
     \<and> (wellFormedTimes event \<longrightarrow>
          format n = Inr (withoutTimes n)
        \<and> format (withoutTimes n) = Inr (withoutTimes n)
        \<and> (format n = Inr n \<longleftrightarrow> field n ''start'' = JUndef \<and> field n ''end'' = JUndef))"
proof -
  obtain n where n: "format event = Inr n" using assms by (simp add: format_def)
  have "format n = Inr (withoutTimes n)
        \<and> format (withoutTimes n) = Inr (withoutTimes n)
        \<and> (format n = Inr n \<longleftrightarrow> field n ''start'' = JUndef \<and> field n ''end'' = JUndef)"
    if wf: "wellFormedTimes event"
  proof -
    note once = format_again [OF assms n wf]
    note twice = format_withoutTimes [OF assms n]
    have "format n = Inr n \<longleftrightarrow> withoutTimes n = n"
      by (simp only: once sum.inject)
    from this withoutTimes_same [OF assms n]
    have "format n = Inr n \<longleftrightarrow> field n ''start'' = JUndef \<and> field n ''end'' = JUndef"
      by (rule trans)
    with once twice show ?thesis by (intro conjI)
  qed
  with n show ?thesis by blast
qed

text \<open>The amended claim C3 at the timed event: normalized twice, it lost its times.\<close>

theorem format_total_renormalize_witness:
  "\<exists>n. format timedEvent = Inr n \<and> format n = Inr (withoutTimes n) \<and> format n \<noteq> Inr n"
proof -
  have a: "\<not> nullish timedEvent" by (simp add: nullish_def timedEvent_def)
  have b: "wellFormedTimes timedEvent"
    by (simp add: timedEvent_def wellFormedTimes_def opt_def nullish_def)
  have c: "\<And>n. format timedEvent = Inr n \<Longrightarrow> field n ''start'' \<noteq> JUndef"
    by (auto simp: format_def timedEvent_def nullish_def opt_def js_or_def)
  from format_total_renormalize_drops_times [OF a] b c show ?thesis by blast
qed

text \<open>
  Claim C4: \<open>formatSummary\<close> appends the status line only when the status flag is set and
  the status is present and differs from \<open>confirmed\<close>; an event with no status never gets a
  status line.

  The location line and the attendee line are guarded by the presence of their value; the
  status line is guarded by \<open>status !== 'confirmed'\<close> alone, which holds of a missing
  status. With the flag set, an event without status gets the line, reading \<open>undefined\<close>.
\<close>

theorem status_line_for_missing_status:
  "formatSummary w noStatusEvent
     [(''showLocation'', JBool False), (''showAttendees'', JUndef), (''showStatus'', JBool True)] =
   Inr (padEnd ''All day'' 20 @ '' Offsite'' @ continuation markWarn ''  undefined'')"
  by (simp add: formatSummary_def formatTimeRange_def format_def noStatusEvent_def nullish_def
      opt_def js_or_def greaterThan_def)

text \<open>
  Claim C5: a long option \<open>--key=value\<close> is split on the first \<open>=\<close> only, the value being
  the whole remainder: \<open>--a=b=c\<close> yields key \<open>a\<close> and value \<open>b=c\<close>.

  The parser calls \<open>split('=', 2)\<close>, which cuts the text at every \<open>=\<close> and keeps the first
  two pieces: the value ends at the second \<open>=\<close>, and \<open>--a=b=c\<close> yields the value \<open>b\<close>.
\<close>

theorem long_option_value_cut_at_second_equals:
  "parseArgs [''--a=b=c''] =
     Inr \<lparr>command = None, positional = [], options = [(''a'', JStr ''b'')]\<rparr>"
  by (simp add: parse_defs)





text \<open>
  Claim C8: for every argument list, the empty one included, \<open>parseArgs\<close> never raises
  and returns well-formed parsed arguments: a command that is a string or null, a sequence
  of positional strings, and options that map strings to strings or the boolean \<open>true\<close>.

  In the model every read of \<open>args[i]\<close> past the end is an error; the theorem says that
  none is reached, and that every option value is a string or \<open>true\<close>. The command and
  the positional arguments are strings by their types.
\<close>

theorem parseArgs_total_well_formed:
  "(\<exists>p. parseArgs args = Inr p \<and> list_all isOptionValue (map snd (options p)))
   \<and> parseArgs [] = Inr \<lparr>command = None, positional = [], options = []\<rparr>"
proof -
  have "parsedOk (parseArgs args)"
    unfolding parseArgs_def by (rule parseLoop_ok) (simp add: emptyParsed_def)
  then have "\<exists>p. parseArgs args = Inr p \<and> list_all isOptionValue (map snd (options p))"
    by (cases "parseArgs args") (simp_all add: parsedOk_def)
  moreover have "parseArgs [] = Inr \<lparr>command = None, positional = [], options = []\<rparr>"
    by (simp add: parse_defs)
  ultimately show ?thesis by (rule conjI)
qed





end
